theory Spec2Isabelle
  imports Complex_Main "HOL-Library.Char_ord" "HOL-Library.List_Lexorder"
begin

section \<open>Go values used by the data manager\<close>

subsection \<open>float64\<close>

text \<open>
  A \<open>float64\<close> is a finite value, an infinity or not-a-number. Finite arithmetic is
  exact (rationals): rounding and overflow to infinity are outside this model. What is
  modelled is what the manager's code can run into: a division with a zero divisor does
  not panic in Go, it yields \<open>NaN\<close> (for \<open>0/0\<close>) or an infinity, and \<open>NaN\<close> then spreads
  through every later operation and fails every comparison. Negative zero is not a
  value of the model: every zero divisor the manager computes is the conversion of the
  \<open>int\<close> 0 or a product or quotient of non-negative values, so its sign is positive.
\<close>

datatype float64 = Fin rat | PInf | NInf | NaN

fun fneg :: "float64 \<Rightarrow> float64" where
  "fneg (Fin a) = Fin (- a)"
| "fneg PInf = NInf"
| "fneg NInf = PInf"
| "fneg NaN = NaN"

fun fadd :: "float64 \<Rightarrow> float64 \<Rightarrow> float64" where
  "fadd (Fin a) (Fin b) = Fin (a + b)"
| "fadd NaN _ = NaN"
| "fadd _ NaN = NaN"
| "fadd PInf NInf = NaN"
| "fadd NInf PInf = NaN"
| "fadd PInf _ = PInf"
| "fadd _ PInf = PInf"
| "fadd NInf _ = NInf"
| "fadd _ NInf = NInf"

definition fsub :: "float64 \<Rightarrow> float64 \<Rightarrow> float64" where
  "fsub x y = fadd x (fneg y)"

fun fmul :: "float64 \<Rightarrow> float64 \<Rightarrow> float64" where
  "fmul (Fin a) (Fin b) = Fin (a * b)"
| "fmul NaN _ = NaN"
| "fmul _ NaN = NaN"
| "fmul PInf (Fin b) = (if b = 0 then NaN else if 0 < b then PInf else NInf)"
| "fmul NInf (Fin b) = (if b = 0 then NaN else if 0 < b then NInf else PInf)"
| "fmul (Fin a) PInf = (if a = 0 then NaN else if 0 < a then PInf else NInf)"
| "fmul (Fin a) NInf = (if a = 0 then NaN else if 0 < a then NInf else PInf)"
| "fmul PInf PInf = PInf"
| "fmul PInf NInf = NInf"
| "fmul NInf PInf = NInf"
| "fmul NInf NInf = PInf"

fun fdiv :: "float64 \<Rightarrow> float64 \<Rightarrow> float64" where
  "fdiv (Fin a) (Fin b) =
     (if b \<noteq> 0 then Fin (a / b)
      else if a = 0 then NaN
      else if 0 < a then PInf else NInf)"
| "fdiv NaN _ = NaN"
| "fdiv _ NaN = NaN"
| "fdiv (Fin a) PInf = Fin 0"
| "fdiv (Fin a) NInf = Fin 0"
| "fdiv PInf (Fin b) = (if 0 \<le> b then PInf else NInf)"
| "fdiv NInf (Fin b) = (if 0 \<le> b then NInf else PInf)"
| "fdiv PInf _ = NaN"
| "fdiv NInf _ = NaN"

fun fabs :: "float64 \<Rightarrow> float64" where
  "fabs (Fin a) = Fin \<bar>a\<bar>"
| "fabs PInf = PInf"
| "fabs NInf = PInf"
| "fabs NaN = NaN"



definition float64_of_int :: "int \<Rightarrow> float64" where
  "float64_of_int i = Fin (of_int i)"

subsection \<open>Strings\<close>


definition lower_char :: "char \<Rightarrow> char" where
  "lower_char c =
     (if 65 \<le> (of_char c :: nat) \<and> (of_char c :: nat) \<le> 90
      then char_of ((of_char c :: nat) + 32) else c)"

definition ToLower :: "string \<Rightarrow> string" where
  "ToLower s = map lower_char s"

definition is_space :: "char \<Rightarrow> bool" where
  "is_space c = ((of_char c :: nat) \<in> {9, 10, 11, 12, 13, 32})"

definition TrimSpace :: "string \<Rightarrow> string" where
  "TrimSpace s = rev (dropWhile is_space (rev (dropWhile is_space s)))"

fun Split_from :: "char \<Rightarrow> string \<Rightarrow> string \<Rightarrow> string list" where
  "Split_from sep cur [] = [cur]"
| "Split_from sep cur (c # cs) =
     (if c = sep then cur # Split_from sep [] cs else Split_from sep (cur @ [c]) cs)"

definition Split :: "string \<Rightarrow> char \<Rightarrow> string list" where
  "Split s sep = Split_from sep [] s"

fun Join :: "string list \<Rightarrow> string \<Rightarrow> string" where
  "Join [] sep = []"
| "Join [s] sep = s"
| "Join (s # t # ts) sep = s @ sep @ Join (t # ts) sep"

fun show_nat :: "nat \<Rightarrow> string" where
  "show_nat n =
     (if n < 10 then [char_of (48 + n)]
      else show_nat (n div 10) @ [char_of (48 + n mod 10)])"

declare show_nat.simps [simp del]

definition Itoa :: "int \<Rightarrow> string" where
  "Itoa i = (if i < 0 then CHR ''-'' # show_nat (nat (- i)) else show_nat (nat i))"

subsection \<open>Maps\<close>

text \<open>
  A Go map is an association list with distinct keys. The order of the list stands for
  the order in which \<open>range\<close> visits the entries, which Go leaves unspecified: a
  function that receives a map is verified for every such list. Reading a missing key
  gives the zero value of the element type, passed as the default.
\<close>

type_synonym ('k, 'v) gomap = "('k \<times> 'v) list"

definition map_get :: "('k, 'v) gomap \<Rightarrow> 'k \<Rightarrow> 'v \<Rightarrow> 'v" where
  "map_get m k zero = (case map_of m k of None \<Rightarrow> zero | Some v \<Rightarrow> v)"

fun map_put :: "('k, 'v) gomap \<Rightarrow> 'k \<Rightarrow> 'v \<Rightarrow> ('k, 'v) gomap" where
  "map_put [] k v = [(k, v)]"
| "map_put ((k', v') # m) k v =
     (if k' = k then (k, v) # m else (k', v') # map_put m k v)"

section \<open>The data structures of main.go\<close>

type_synonym time = nat

record ChangeRecord =
  Timestamp :: time
  User :: string
  Field :: string
  OldValue :: string
  NewValue :: string

record DatasetMetadata =
  Name :: string
  Version :: int
  LastModified :: time
  TotalItems :: int
  VerifiedItems :: int
  Labels :: "string list"
  Categories :: "string list"
  Tags :: "string list"

record DataItem =
  ID :: int
  Text :: string
  Category :: string
  Tags :: "string list"
  Label :: string
  Confidence :: float64
  UserVerified :: bool
  ModelPreds :: "(string, float64) gomap"
  LastUpdated :: time
  Version :: int
  VerifiedBy :: string
  ReviewStatus :: string
  History :: "ChangeRecord list"

record MetricsData =
  Accuracy :: float64
  F1Score :: float64
  DatasetSize :: int
  VerifiedPct :: float64
  LabelDistribution :: "(string, int) gomap"
  QualityScore :: float64
  BiasMetrics :: "(string, float64) gomap"

record DataManager =
  Dataset :: "DataItem list"
  Metadata :: DatasetMetadata
  Metrics :: MetricsData
  BackupPath :: string
  CurrentUser :: string

text \<open>
  The counters of the manager are Go \<open>int\<close>s (64 bits). They count items of the
  in-memory slice \<open>Dataset\<close>, or the updates one item has seen, so none can reach
  \<open>2^63\<close>, and they are modelled as unbounded integers.
\<close>

definition NewDataManager :: "time \<Rightarrow> DataManager" where
  "NewDataManager now =
     \<lparr> Dataset = [],
       Metadata = \<lparr> Name = [], DatasetMetadata.Version = 1, LastModified = now,
                    TotalItems = 0, VerifiedItems = 0, Labels = [], Categories = [],
                    DatasetMetadata.Tags = [] \<rparr>,
       Metrics = \<lparr> Accuracy = Fin 0, F1Score = Fin 0, DatasetSize = 0,
                   VerifiedPct = Fin 0, LabelDistribution = [], QualityScore = Fin 0,
                   BiasMetrics = [] \<rparr>,
       BackupPath = ''backups/'',
       CurrentUser = [] \<rparr>"

section \<open>Metrics\<close>

text \<open>
  \<open>mapKeys\<close> collects the keys in iteration order and sorts them with
  \<open>sort.Slice\<close> under \<open>fmt.Sprint(keys[i]) < fmt.Sprint(keys[j])\<close>; for string keys
  \<open>fmt.Sprint\<close> is the identity. The library sort is modelled by insertion sort: the
  keys of a map are distinct, so every sorting algorithm returns the same slice.
\<close>

definition mapKeys :: "(string, 'v) gomap \<Rightarrow> string list" where
  "mapKeys m = sort (fold (\<lambda>(k, _) keys. keys @ [k]) m [])"

definition calculateDistributionScore :: "(string, int) gomap \<Rightarrow> float64" where
  "calculateDistributionScore counts =
     (if length counts = 0 then Fin 0
      else
        let total' = fold (\<lambda>(_, count) t. t + count) counts (0::int);
            expected = fdiv (float64_of_int total') (float64_of_int (int (length counts)));
            deviation =
              fold (\<lambda>(_, count) deviation.
                      let diff = fsub (float64_of_int count) expected
                      in fadd deviation (fmul diff diff))
                   counts (Fin 0);
            deviation = fdiv deviation (float64_of_int (int (length counts)));
            maxDeviation = fmul expected expected
        in fmul (fsub (Fin 1) (fdiv deviation maxDeviation)) (Fin 100))"

definition count_item ::
  "DataItem \<Rightarrow> (string, int) gomap \<times> (string, float64) gomap
     \<Rightarrow> (string, int) gomap \<times> (string, float64) gomap" where
  "count_item item acc =
     (case acc of (labelCounts, textLengths) \<Rightarrow>
        (map_put labelCounts (Label item) (map_get labelCounts (Label item) 0 + 1),
         map_put textLengths (Label item)
           (fadd (map_get textLengths (Label item) (Fin 0))
                 (float64_of_int (int (length (Text item)))))))"

definition bias_step ::
  "int \<Rightarrow> float64 \<Rightarrow> (string, float64) gomap \<Rightarrow> string \<times> int
     \<Rightarrow> float64 \<times> (string, float64) gomap \<Rightarrow> float64 \<times> (string, float64) gomap" where
  "bias_step total' expectedPct textLengths entry acc =
     (case entry of (label, count) \<Rightarrow>
      case acc of (distributionBias, metrics) \<Rightarrow>
        let actualPct = fdiv (float64_of_int count) (float64_of_int total');
            distributionBias = fadd distributionBias (fabs (fsub actualPct expectedPct))
        in (distributionBias,
            if 0 < count
            then map_put metrics (''text_length_'' @ label)
                   (fdiv (map_get textLengths label (Fin 0)) (float64_of_int count))
            else metrics))"

definition calculateBiasMetrics :: "DataItem list \<Rightarrow> (string, float64) gomap" where
  "calculateBiasMetrics dataset =
     (case fold count_item dataset ([], []) of (labelCounts, textLengths) \<Rightarrow>
        let total' = int (length dataset);
            expectedPct = fdiv (Fin 1) (float64_of_int (int (length labelCounts)))
        in case fold (bias_step total' expectedPct textLengths) labelCounts (Fin 0, [])
           of (distributionBias, metrics) \<Rightarrow>
             map_put metrics ''distribution_bias''
               (fdiv distributionBias (float64_of_int (int (length labelCounts)))))"







definition UpdateMetrics :: "(string, int) gomap \<Rightarrow> DataManager \<Rightarrow> DataManager" where
  "UpdateMetrics labelCounts dm =
     (let verifiedPct =
            fmul (fdiv (float64_of_int (VerifiedItems (Metadata dm)))
                       (float64_of_int (TotalItems (Metadata dm))))
                 (Fin 100);
          distributionScore = calculateDistributionScore labelCounts
      in dm\<lparr>Metrics := (Metrics dm)
              \<lparr>DatasetSize := int (length (Dataset dm)),
               VerifiedPct := verifiedPct,
               LabelDistribution := labelCounts,
               QualityScore := fdiv (fadd verifiedPct distributionScore) (Fin 2),
               BiasMetrics := calculateBiasMetrics (Dataset dm)\<rparr>\<rparr>)"

record scan =
  verified :: int
  labelCounts :: "(string, int) gomap"
  categories :: "(string, bool) gomap"
  tags :: "(string, bool) gomap"

definition scan_item :: "DataItem \<Rightarrow> scan \<Rightarrow> scan" where
  "scan_item item s =
     \<lparr> verified = (if UserVerified item then verified s + 1 else verified s),
       labelCounts =
         map_put (labelCounts s) (Label item) (map_get (labelCounts s) (Label item) 0 + 1),
       categories = map_put (categories s) (Category item) True,
       tags = fold (\<lambda>tag tags. map_put tags tag True) (DataItem.Tags item) (tags s) \<rparr>"

definition UpdateMetadata :: "time \<Rightarrow> DataManager \<Rightarrow> DataManager" where
  "UpdateMetadata now dm =
     (let s = fold scan_item (Dataset dm)
                \<lparr> verified = 0, labelCounts = [], categories = [], tags = [] \<rparr>;
          md = (Metadata dm)
                 \<lparr>LastModified := now,
                  TotalItems := int (length (Dataset dm)),
                  VerifiedItems := verified s,
                  Labels := mapKeys (labelCounts s),
                  Categories := mapKeys (categories s),
                  DatasetMetadata.Tags := mapKeys (tags s)\<rparr>
      in UpdateMetrics (labelCounts s) (dm\<lparr>Metadata := md\<rparr>))"

section \<open>Updating an item\<close>

text \<open>
  The values of \<open>updates\<close> are \<open>interface{}\<close> values, and so is what reflection reads
  from a field of the item. \<open>Sprintf_v\<close> is \<open>fmt.Sprintf("%v", _)\<close>; the layout of
  floats, times, maps and slices of records is left to the parameter \<open>render\<close>.
\<close>

datatype go_value =
    VNil
  | VString string
  | VStrings "string list"
  | VInt int
  | VBool bool
  | VFloat float64
  | VPreds "(string, float64) gomap"
  | VTime time
  | VHistory "ChangeRecord list"

fun Sprintf_v :: "(go_value \<Rightarrow> string) \<Rightarrow> go_value \<Rightarrow> string" where
  "Sprintf_v render VNil = ''<nil>''"
| "Sprintf_v render (VString s) = s"
| "Sprintf_v render (VStrings ts) = ''['' @ Join ts '' '' @ '']''"
| "Sprintf_v render (VInt i) = Itoa i"
| "Sprintf_v render (VBool b) = (if b then ''true'' else ''false'')"
| "Sprintf_v render v = render v"

text \<open>
  The ways \<open>UpdateItem\<close> can panic: indexing \<open>dm.Dataset\<close> out of range, a failed type
  assertion \<open>value.(string)\<close> or \<open>value.([]string)\<close>, and \<open>Interface()\<close> called on the
  zero \<open>reflect.Value\<close> that \<open>FieldByName\<close> returns when the struct has no field of
  that name.
\<close>

datatype panic = IndexOutOfRange | InterfaceConversion | ReflectZeroValue

text \<open>
  \<open>reflect.ValueOf(item).FieldByName(name)\<close>: the field of the struct \<open>DataItem\<close> with
  exactly this name (the match is case-sensitive), \<open>None\<close> for the zero Value.
\<close>

definition FieldByName :: "DataItem \<Rightarrow> string \<Rightarrow> go_value option" where
  "FieldByName item name =
     (if name = ''ID'' then Some (VInt (ID item))
      else if name = ''Text'' then Some (VString (Text item))
      else if name = ''Category'' then Some (VString (Category item))
      else if name = ''Tags'' then Some (VStrings (DataItem.Tags item))
      else if name = ''Label'' then Some (VString (Label item))
      else if name = ''Confidence'' then Some (VFloat (Confidence item))
      else if name = ''UserVerified'' then Some (VBool (UserVerified item))
      else if name = ''ModelPreds'' then Some (VPreds (ModelPreds item))
      else if name = ''LastUpdated'' then Some (VTime (LastUpdated item))
      else if name = ''Version'' then Some (VInt (DataItem.Version item))
      else if name = ''VerifiedBy'' then Some (VString (VerifiedBy item))
      else if name = ''ReviewStatus'' then Some (VString (ReviewStatus item))
      else if name = ''History'' then Some (VHistory (History item))
      else None)"

text \<open>The \<open>switch field\<close> of the loop body; a field it does not name is left alone.\<close>

definition assign_field :: "string \<Rightarrow> go_value \<Rightarrow> DataItem \<Rightarrow> panic + DataItem" where
  "assign_field field v item =
     (if field = ''label''
      then (case v of VString s \<Rightarrow> Inr (item\<lparr>Label := s\<rparr>) | _ \<Rightarrow> Inl InterfaceConversion)
      else if field = ''tags''
      then (case v of VStrings ts \<Rightarrow> Inr (item\<lparr>DataItem.Tags := ts\<rparr>)
                    | _ \<Rightarrow> Inl InterfaceConversion)
      else if field = ''category''
      then (case v of VString s \<Rightarrow> Inr (item\<lparr>Category := s\<rparr>) | _ \<Rightarrow> Inl InterfaceConversion)
      else Inr item)"

text \<open>
  The loop \<open>for field, value := range updates\<close>. \<open>item\<close> points into the dataset, so
  what the loop has written before a panic stays written: the result carries the item
  as it is when the loop stops. All calls of \<open>time.Now()\<close> within one operation read
  the same instant \<open>now\<close>.
\<close>

fun update_fields ::
  "time \<Rightarrow> string \<Rightarrow> (go_value \<Rightarrow> string) \<Rightarrow> DataItem \<Rightarrow> (string, go_value) gomap
     \<Rightarrow> DataItem \<Rightarrow> panic option \<times> DataItem" where
  "update_fields now user render oldItem [] item = (None, item)"
| "update_fields now user render oldItem ((field, v) # updates) item =
     (case assign_field field v item of
        Inl p \<Rightarrow> (Some p, item)
      | Inr item' \<Rightarrow>
          (case FieldByName oldItem field of
             None \<Rightarrow> (Some ReflectZeroValue, item')
           | Some old \<Rightarrow>
               update_fields now user render oldItem updates
                 (item'\<lparr>History := History item' @
                    [\<lparr> Timestamp = now, User = user, Field = field,
                       OldValue = Sprintf_v render old,
                       NewValue = Sprintf_v render v \<rparr>]\<rparr>)))"

definition UpdateItem ::
  "time \<Rightarrow> (go_value \<Rightarrow> string) \<Rightarrow> DataManager \<Rightarrow> int \<Rightarrow> (string, go_value) gomap
     \<Rightarrow> panic option \<times> DataManager" where
  "UpdateItem now render dm index updates =
     (if index < 0 \<or> int (length (Dataset dm)) \<le> index then (Some IndexOutOfRange, dm)
      else
        let i = nat index;
            oldItem = Dataset dm ! i
        in case update_fields now (CurrentUser dm) render oldItem updates oldItem of
             (Some p, item) \<Rightarrow> (Some p, dm\<lparr>Dataset := (Dataset dm)[i := item]\<rparr>)
           | (None, item) \<Rightarrow>
               (None,
                UpdateMetadata now
                  (dm\<lparr>Dataset := (Dataset dm)
                        [i := item\<lparr>LastUpdated := now,
                                   DataItem.Version := DataItem.Version item + 1\<rparr>]\<rparr>)))"

section \<open>Importing CSV\<close>

text \<open>
  The input is what \<open>encoding/csv\<close> makes of the reader: a sequence of lines, each
  either split into its fields or refused by the parser. With the reader's default
  settings the first record fixes the number of fields, and \<open>Read\<close> returns
  \<open>ErrFieldCount\<close> for a later record of another length.
\<close>

datatype csv_line = Record "string list" | Malformed

datatype import_error = HeaderError | RowError

definition Read :: "nat \<Rightarrow> csv_line \<Rightarrow> string list option" where
  "Read fieldsPerRecord line =
     (case line of
        Malformed \<Rightarrow> None
      | Record fs \<Rightarrow> if length fs = fieldsPerRecord then Some fs else None)"

definition headerMap :: "string list \<Rightarrow> (string, nat) gomap" where
  "headerMap headers =
     fold (\<lambda>(i, header) hm. map_put hm (ToLower (TrimSpace header)) i)
          (enumerate 0 headers) []"

definition new_item :: "time \<Rightarrow> DataItem list \<Rightarrow> DataItem" where
  "new_item now dataset =
     \<lparr> ID = int (length dataset) + 1, Text = [], Category = [], DataItem.Tags = [],
       Label = [], Confidence = Fin 0, UserVerified = False, ModelPreds = [],
       LastUpdated = now, DataItem.Version = 0, VerifiedBy = [], ReviewStatus = [],
       History = [] \<rparr>"

definition map_field :: "string list \<Rightarrow> string \<times> nat \<Rightarrow> DataItem \<Rightarrow> DataItem" where
  "map_field row entry item =
     (case entry of (header, idx) \<Rightarrow>
        if header = ''text'' then item\<lparr>Text := row ! idx\<rparr>
        else if header = ''category'' then item\<lparr>Category := row ! idx\<rparr>
        else if header = ''label'' then item\<lparr>Label := row ! idx\<rparr>
        else if header = ''tags'' then item\<lparr>DataItem.Tags := Split (row ! idx) CHR '',''\<rparr>
        else item)"

fun import_rows ::
  "time \<Rightarrow> (string, nat) gomap \<Rightarrow> nat \<Rightarrow> csv_line list \<Rightarrow> DataItem list
     \<Rightarrow> import_error option \<times> DataItem list" where
  "import_rows now hm n [] dataset = (None, dataset)"
| "import_rows now hm n (line # lines) dataset =
     (case Read n line of
        None \<Rightarrow> (Some RowError, dataset)
      | Some row \<Rightarrow>
          import_rows now hm n lines
            (dataset @ [fold (map_field row) hm (new_item now dataset)]))"

definition ImportCSV ::
  "time \<Rightarrow> DataManager \<Rightarrow> csv_line list \<Rightarrow> import_error option \<times> DataManager" where
  "ImportCSV now dm input =
     (case input of
        [] \<Rightarrow> (Some HeaderError, dm)
      | Malformed # _ \<Rightarrow> (Some HeaderError, dm)
      | Record headers # lines \<Rightarrow>
          (case import_rows now (headerMap headers) (length headers) lines (Dataset dm) of
             (Some e, dataset) \<Rightarrow> (Some e, dm\<lparr>Dataset := dataset\<rparr>)
           | (None, dataset) \<Rightarrow> (None, UpdateMetadata now (dm\<lparr>Dataset := dataset\<rparr>))))"

text \<open>The field names the \<open>switch\<close> of \<open>UpdateItem\<close> has a case for.\<close>

definition recognized :: "string set" where
  "recognized = {''label'', ''tags'', ''category''}"

text \<open>A store holding one freshly imported item with empty fields, as a concrete input.\<close>

definition one_item_store :: DataManager where
  "one_item_store = (NewDataManager 0)\<lparr>Dataset := [new_item 0 []]\<rparr>"

text \<open>Scenario A of the specification: a header and two rows.\<close>

definition scenario_A :: "csv_line list" where
  "scenario_A = [Record [''text'', ''label''], Record [''a'', ''pos''], Record [''b'', ''neg'']]"

text \<open>The store those two rows make, before any recomputation.\<close>

definition two_item_store :: DataManager where
  "two_item_store =
     (NewDataManager 0)
       \<lparr>Dataset := [(new_item 0 [])\<lparr>Text := ''a'', Label := ''pos''\<rparr>,
                    (new_item 0 [])\<lparr>ID := 2, Text := ''b'', Label := ''neg''\<rparr>]\<rparr>"

text \<open>
  The counts of a store agree with its items: the verified count, the total, and the
  label distribution summing to the total.
\<close>

definition counts_consistent :: "DataManager \<Rightarrow> bool" where
  "counts_consistent dm =
     (VerifiedItems (Metadata dm) = int (length (filter UserVerified (Dataset dm)))
      \<and> TotalItems (Metadata dm) = int (length (Dataset dm))
      \<and> sum_list (map snd (LabelDistribution (Metrics dm))) = TotalItems (Metadata dm))"

text \<open>An input whose second data row has one field where the header has two.\<close>

definition short_row_input :: "csv_line list" where
  "short_row_input =
     [Record [''text'', ''label''], Record [''a'', ''pos''], Record [''b''], Record [''c'', ''neg'']]"





section \<open>Properties of UpdateItem\<close>



lemma FieldByName_recognized:
  "FieldByName oldItem ''label'' = None"
  "FieldByName oldItem ''tags'' = None"
  "FieldByName oldItem ''category'' = None"
  by (simp_all add: FieldByName_def)

lemma assign_field_keeps:
  "assign_field field v item = Inr item' \<Longrightarrow>
     History item' = History item \<and> DataItem.Version item' = DataItem.Version item
       \<and> LastUpdated item' = LastUpdated item \<and> Text item' = Text item \<and> ID item' = ID item"
  by (cases v) (auto simp: assign_field_def split: if_splits)

lemma assign_field_unrecognized:
  "field \<notin> recognized \<Longrightarrow> assign_field field v item = Inr item"
  by (simp add: assign_field_def recognized_def)

lemma update_fields_recognized:
  assumes "field \<in> recognized"
  shows "fst (update_fields now user render oldItem ((field, v) # updates) item) \<noteq> None
     \<and> History (snd (update_fields now user render oldItem ((field, v) # updates) item)) = History item
     \<and> DataItem.Version (snd (update_fields now user render oldItem ((field, v) # updates) item)) = DataItem.Version item
     \<and> LastUpdated (snd (update_fields now user render oldItem ((field, v) # updates) item)) = LastUpdated item"
proof (cases "assign_field field v item")
  case (Inl p)
  then show ?thesis by simp
next
  case (Inr item')
  have "FieldByName oldItem field = None"
    using assms FieldByName_recognized by (auto simp: recognized_def)
  with Inr assign_field_keeps [OF Inr] show ?thesis by simp
qed

lemma update_fields_unrecognized:
  "\<forall>f\<in>fst ` set updates. f \<notin> recognized \<Longrightarrow>
     Label (snd (update_fields now user render oldItem updates item)) = Label item
   \<and> DataItem.Tags (snd (update_fields now user render oldItem updates item)) = DataItem.Tags item
   \<and> Category (snd (update_fields now user render oldItem updates item)) = Category item"
proof (induction updates arbitrary: item)
  case Nil
  then show ?case by simp
next
  case (Cons u us)
  obtain f v where u: "u = (f, v)" by (cases u)
  with Cons.prems have nf: "f \<notin> recognized" and rest: "\<forall>f\<in>fst ` set us. f \<notin> recognized"
    by auto
  show ?case
    using Cons.IH [OF rest] nf
    by (simp add: u assign_field_unrecognized split: option.splits)
qed

lemma Dataset_UpdateMetadata: "Dataset (UpdateMetadata now dm) = Dataset dm"
  by (simp add: UpdateMetadata_def UpdateMetrics_def Let_def)



lemma UpdateItem_invalid_index:
  "index < 0 \<or> int (length (Dataset dm)) \<le> index \<Longrightarrow>
     UpdateItem now render dm index updates = (Some IndexOutOfRange, dm)"
  by (simp add: UpdateItem_def)

lemma UpdateItem_Dataset:
  assumes "0 \<le> index" "index < int (length (Dataset dm))"
  shows "Dataset (snd (UpdateItem now render dm index updates)) =
     (Dataset dm)[nat index :=
        (if fst (UpdateItem now render dm index updates) = None
         then (snd (update_fields now (CurrentUser dm) render (Dataset dm ! nat index) updates
                      (Dataset dm ! nat index)))
                \<lparr>LastUpdated := now,
                 DataItem.Version := DataItem.Version
                   (snd (update_fields now (CurrentUser dm) render (Dataset dm ! nat index)
                           updates (Dataset dm ! nat index))) + 1\<rparr>
         else snd (update_fields now (CurrentUser dm) render (Dataset dm ! nat index) updates
                     (Dataset dm ! nat index)))]"
  using assms
  by (simp add: UpdateItem_def Let_def Dataset_UpdateMetadata split: prod.splits option.splits)

lemma UpdateItem_fst:
  assumes "0 \<le> index" "index < int (length (Dataset dm))"
  shows "fst (UpdateItem now render dm index updates) =
     fst (update_fields now (CurrentUser dm) render (Dataset dm ! nat index) updates
            (Dataset dm ! nat index))"
  using assms
  by (simp add: UpdateItem_def Let_def split: prod.splits option.splits)

lemma UpdateItem_panic_keeps_metadata:
  "fst (UpdateItem now render dm index updates) \<noteq> None \<Longrightarrow>
     Metadata (snd (UpdateItem now render dm index updates)) = Metadata dm
     \<and> Metrics (snd (UpdateItem now render dm index updates)) = Metrics dm"
  by (auto simp: UpdateItem_def Let_def split: if_splits prod.splits option.splits)

text \<open>
  C2, as the code has it. \<open>UpdateItem\<close> has no error result and checks no field name.
  An index outside the dataset makes \<open>dm.Dataset[index]\<close> panic before anything is
  written, so the store is left exactly as it was. A field name outside the recognized
  set is not refused: the \<open>switch\<close> has no case for it, so an update that names only
  such fields leaves the label, tags and category of every item as they were, whether
  the call then returns or stops in the capture of the change record.
\<close>

theorem UpdateItem_rejects_only_bad_index:
  "(index < 0 \<or> int (length (Dataset dm)) \<le> index \<longrightarrow>
      UpdateItem now render dm index updates = (Some IndexOutOfRange, dm))
   \<and> ((\<forall>f\<in>fst ` set updates. f \<notin> recognized) \<longrightarrow>
        map Label (Dataset (snd (UpdateItem now render dm index updates))) = map Label (Dataset dm)
      \<and> map DataItem.Tags (Dataset (snd (UpdateItem now render dm index updates)))
          = map DataItem.Tags (Dataset dm)
      \<and> map Category (Dataset (snd (UpdateItem now render dm index updates)))
          = map Category (Dataset dm))"
proof (intro conjI impI)
  assume "index < 0 \<or> int (length (Dataset dm)) \<le> index"
  then show "UpdateItem now render dm index updates = (Some IndexOutOfRange, dm)"
    by (rule UpdateItem_invalid_index)
next
  assume un: "\<forall>f\<in>fst ` set updates. f \<notin> recognized"
  let ?r = "UpdateItem now render dm index updates"
  have keep: "Label it' = Label (Dataset dm ! nat index)
      \<and> DataItem.Tags it' = DataItem.Tags (Dataset dm ! nat index)
      \<and> Category it' = Category (Dataset dm ! nat index)"
    if "it' = snd (update_fields now (CurrentUser dm) render (Dataset dm ! nat index) updates
                     (Dataset dm ! nat index))" for it'
    using update_fields_unrecognized [OF un] that by simp
  have "map Label (Dataset (snd ?r)) = map Label (Dataset dm)
      \<and> map DataItem.Tags (Dataset (snd ?r)) = map DataItem.Tags (Dataset dm)
      \<and> map Category (Dataset (snd ?r)) = map Category (Dataset dm)"
  proof (cases "index < 0 \<or> int (length (Dataset dm)) \<le> index")
    case True
    then show ?thesis by (simp add: UpdateItem_invalid_index)
  next
    case False
    then have v: "0 \<le> index" "index < int (length (Dataset dm))" by auto
    then have n: "nat index < length (Dataset dm)" by simp
    show ?thesis
      using keep n
      by (simp add: UpdateItem_Dataset [OF v] map_update list_update_same_conv)
  qed
  then show "map Label (Dataset (snd ?r)) = map Label (Dataset dm)"
    and "map DataItem.Tags (Dataset (snd ?r)) = map DataItem.Tags (Dataset dm)"
    and "map Category (Dataset (snd ?r)) = map Category (Dataset dm)"
    by simp_all
qed

theorem UpdateItem_rejects_only_bad_index_witness:
  "UpdateItem 1 (\<lambda>_. []) one_item_store 5 [(''Label'', VString ''pos'')]
     = (Some IndexOutOfRange, one_item_store)
   \<and> map Label (Dataset (snd (UpdateItem 1 (\<lambda>_. []) one_item_store 0 [(''Label'', VString ''pos'')])))
     = map Label (Dataset one_item_store)"
  using UpdateItem_rejects_only_bad_index [of 5 one_item_store 1 "\<lambda>_. []" "[(''Label'', VString ''pos'')]"]
    UpdateItem_rejects_only_bad_index [of 0 one_item_store 1 "\<lambda>_. []" "[(''Label'', VString ''pos'')]"]
  by (simp add: recognized_def one_item_store_def NewDataManager_def)

text \<open>
  C2 as stated fails: \<open>Label\<close> (capitalised) is not a recognized field name, yet the
  update is accepted; the call returns, appends a change record and bumps the version.
\<close>

theorem UpdateItem_unknown_field_accepted:
  "''Label'' \<notin> recognized
   \<and> fst (UpdateItem 1 (\<lambda>_. []) one_item_store 0 [(''Label'', VString ''pos'')]) = None
   \<and> map (\<lambda>item. (Label item, DataItem.Version item, map Field (History item)))
        (Dataset (snd (UpdateItem 1 (\<lambda>_. []) one_item_store 0 [(''Label'', VString ''pos'')])))
      = [([], 1, [''Label''])]"
  by (simp add: recognized_def one_item_store_def NewDataManager_def new_item_def
      UpdateItem_def assign_field_def FieldByName_def Dataset_UpdateMetadata)

text \<open>
  C3: a call that names recognized fields only, and at least one, never returns. The
  first pass of the loop stops in a panic, before \<open>item.Version++\<close> and before any
  change record is appended: the version, the history and the timestamp of the item
  are what they were, instead of a version one higher and one record per field, and
  the metadata is not recomputed.
\<close>

theorem UpdateItem_recognized_fields_panic:
  assumes "0 \<le> index" and "index < int (length (Dataset dm))"
    and "updates \<noteq> []" and "\<forall>f\<in>fst ` set updates. f \<in> recognized"
  shows "fst (UpdateItem now render dm index updates) \<noteq> None
    \<and> DataItem.Version (Dataset (snd (UpdateItem now render dm index updates)) ! nat index)
        = DataItem.Version (Dataset dm ! nat index)
    \<and> History (Dataset (snd (UpdateItem now render dm index updates)) ! nat index)
        = History (Dataset dm ! nat index)
    \<and> LastUpdated (Dataset (snd (UpdateItem now render dm index updates)) ! nat index)
        = LastUpdated (Dataset dm ! nat index)
    \<and> Metadata (snd (UpdateItem now render dm index updates)) = Metadata dm"
proof -
  obtain f v us where u: "updates = (f, v) # us"
    using assms(3) by (cases updates) auto
  with assms(4) have f: "f \<in> recognized" by simp
  have n: "nat index < length (Dataset dm)" using assms(1,2) by simp
  have p: "fst (UpdateItem now render dm index updates) \<noteq> None
    \<and> DataItem.Version (Dataset (snd (UpdateItem now render dm index updates)) ! nat index)
        = DataItem.Version (Dataset dm ! nat index)
    \<and> History (Dataset (snd (UpdateItem now render dm index updates)) ! nat index)
        = History (Dataset dm ! nat index)
    \<and> LastUpdated (Dataset (snd (UpdateItem now render dm index updates)) ! nat index)
        = LastUpdated (Dataset dm ! nat index)"
    using update_fields_recognized [OF f, of now "CurrentUser dm" render "Dataset dm ! nat index" v us
        "Dataset dm ! nat index"] n
    by (simp add: UpdateItem_Dataset [OF assms(1,2)] UpdateItem_fst [OF assms(1,2)] u)
  then show ?thesis
    using UpdateItem_panic_keeps_metadata [of now render dm index updates] by blast
qed

theorem UpdateItem_recognized_fields_panic_witness:
  "fst (UpdateItem 1 (\<lambda>_. []) one_item_store 0 [(''label'', VString ''pos'')]) = Some ReflectZeroValue
   \<and> DataItem.Version (Dataset (snd (UpdateItem 1 (\<lambda>_. []) one_item_store 0
         [(''label'', VString ''pos'')])) ! 0) = 0
   \<and> History (Dataset (snd (UpdateItem 1 (\<lambda>_. []) one_item_store 0
         [(''label'', VString ''pos'')])) ! 0) = []
   \<and> Label (Dataset (snd (UpdateItem 1 (\<lambda>_. []) one_item_store 0
         [(''label'', VString ''pos'')])) ! 0) = ''pos''"
  using UpdateItem_recognized_fields_panic [of 0 one_item_store "[(''label'', VString ''pos'')]" 1 "\<lambda>_. []"]
  by (simp add: recognized_def one_item_store_def NewDataManager_def new_item_def
      UpdateItem_def assign_field_def FieldByName_def)

text \<open>
  C4: the capture of the change record panics for each of the three recognized field
  names. The field is assigned first; then \<open>FieldByName\<close> is asked for the lower-case
  name, finds no such field of \<open>DataItem\<close> (they are \<open>Label\<close>, \<open>Tags\<close>, \<open>Category\<close>),
  and \<open>Interface()\<close> panics on the zero Value. The item keeps the new value, with no
  change record, no version bump and no new timestamp.
\<close>

theorem UpdateItem_record_capture_panics:
  assumes "0 \<le> index" and "index < int (length (Dataset dm))"
  shows "UpdateItem now render dm index ((''label'', VString s) # updates) =
           (Some ReflectZeroValue,
            dm\<lparr>Dataset := (Dataset dm)[nat index := (Dataset dm ! nat index)\<lparr>Label := s\<rparr>]\<rparr>)
     \<and> UpdateItem now render dm index ((''tags'', VStrings ts) # updates) =
           (Some ReflectZeroValue,
            dm\<lparr>Dataset := (Dataset dm)
                  [nat index := (Dataset dm ! nat index)\<lparr>DataItem.Tags := ts\<rparr>]\<rparr>)
     \<and> UpdateItem now render dm index ((''category'', VString s) # updates) =
           (Some ReflectZeroValue,
            dm\<lparr>Dataset := (Dataset dm)[nat index := (Dataset dm ! nat index)\<lparr>Category := s\<rparr>]\<rparr>)"
  using assms
  by (simp add: UpdateItem_def assign_field_def FieldByName_def Let_def)

theorem UpdateItem_record_capture_panics_witness:
  "UpdateItem 1 (\<lambda>_. []) one_item_store 0 [(''label'', VString ''pos'')] =
     (Some ReflectZeroValue, one_item_store\<lparr>Dataset := [(new_item 0 [])\<lparr>Label := ''pos''\<rparr>]\<rparr>)
   \<and> UpdateItem 1 (\<lambda>_. []) one_item_store 0 [(''tags'', VStrings [''x'', ''y''])] =
     (Some ReflectZeroValue, one_item_store\<lparr>Dataset := [(new_item 0 [])\<lparr>DataItem.Tags := [''x'', ''y'']\<rparr>]\<rparr>)
   \<and> UpdateItem 1 (\<lambda>_. []) one_item_store 0 [(''category'', VString ''pos'')] =
     (Some ReflectZeroValue, one_item_store\<lparr>Dataset := [(new_item 0 [])\<lparr>Category := ''pos''\<rparr>]\<rparr>)"
  using UpdateItem_record_capture_panics [of 0 one_item_store 1 "\<lambda>_. []" "''pos''" "[]" "[''x'', ''y'']"]
  by (simp add: one_item_store_def NewDataManager_def)

section \<open>Maps and the scan of the dataset\<close>

lemma map_get_Nil: "map_get [] k z = z"
  by (simp add: map_get_def)

lemma map_of_map_put: "map_of (map_put m k v) = (map_of m)(k \<mapsto> v)"
  by (induction m) auto

lemma map_get_map_put: "map_get (map_put m k v) k' z = (if k' = k then v else map_get m k' z)"
  by (simp add: map_get_def map_of_map_put)

lemma keys_map_put:
  "map fst (map_put m k v) = (if k \<in> fst ` set m then map fst m else map fst m @ [k])"
proof (induction m)
  case Nil
  then show ?case by simp
next
  case (Cons p m)
  obtain k' v' where p: "p = (k', v')" by (cases p)
  show ?case
    using Cons by (auto simp: p)
qed

lemma set_keys_map_put: "fst ` set (map_put m k v) = insert k (fst ` set m)"
proof -
  have "set (map fst (map_put m k v)) = insert k (set (map fst m))"
    unfolding keys_map_put by auto
  then show ?thesis by simp
qed

lemma distinct_keys_map_put:
  "distinct (map fst m) \<Longrightarrow> distinct (map fst (map_put m k v))"
  by (simp add: keys_map_put)

lemma map_get_absent: "k \<notin> fst ` set m \<Longrightarrow> map_get m k z = z"
  by (simp add: map_get_def map_of_eq_None_iff [THEN iffD2])

lemma sum_values_map_put:
  fixes m :: "('k \<times> int) list"
  shows "sum_list (map snd (map_put m k v)) = sum_list (map snd m) - map_get m k 0 + v"
proof (induction m)
  case Nil
  then show ?case by (simp add: map_get_def)
next
  case (Cons p m)
  obtain k' v' where p: "p = (k', v')" by (cases p)
  show ?case
    using Cons by (simp add: p map_get_def)
qed

lemma mapKeys_keys: "fold (\<lambda>(k, _) keys. keys @ [k]) m acc = acc @ map fst m"
  by (induction m arbitrary: acc) auto

lemma mapKeys_sort: "mapKeys m = sort (map fst m)"
  by (simp add: mapKeys_def mapKeys_keys)

lemma fold_tags_keys:
  "fst ` set (fold (\<lambda>tag tags. map_put tags tag True) ts m) = fst ` set m \<union> set ts"
  by (induction ts arbitrary: m) (auto simp: set_keys_map_put)

lemma fold_tags_distinct:
  "distinct (map fst m) \<Longrightarrow> distinct (map fst (fold (\<lambda>tag tags. map_put tags tag True) ts m))"
  by (induction ts arbitrary: m) (auto simp: distinct_keys_map_put)

lemma scan_verified:
  "verified (fold scan_item ds s) = verified s + int (length (filter UserVerified ds))"
  by (induction ds arbitrary: s) (auto simp: scan_item_def)

lemma scan_labelCounts_sum:
  "sum_list (map snd (labelCounts (fold scan_item ds s)))
     = sum_list (map snd (labelCounts s)) + int (length ds)"
  by (induction ds arbitrary: s) (auto simp: scan_item_def sum_values_map_put)

lemma scan_labelCounts_get:
  "map_get (labelCounts (fold scan_item ds s)) l 0
     = map_get (labelCounts s) l 0 + int (length (filter (\<lambda>item. Label item = l) ds))"
  by (induction ds arbitrary: s) (auto simp: scan_item_def map_get_map_put)

lemma scan_labelCounts_keys:
  "fst ` set (labelCounts (fold scan_item ds s)) = fst ` set (labelCounts s) \<union> Label ` set ds"
  by (induction ds arbitrary: s) (auto simp: scan_item_def set_keys_map_put)

lemma scan_labelCounts_distinct:
  "distinct (map fst (labelCounts s)) \<Longrightarrow> distinct (map fst (labelCounts (fold scan_item ds s)))"
  by (induction ds arbitrary: s) (auto simp: scan_item_def distinct_keys_map_put)

lemma scan_categories_keys:
  "fst ` set (categories (fold scan_item ds s)) = fst ` set (categories s) \<union> Category ` set ds"
  by (induction ds arbitrary: s) (auto simp: scan_item_def set_keys_map_put)

lemma scan_categories_distinct:
  "distinct (map fst (categories s)) \<Longrightarrow> distinct (map fst (categories (fold scan_item ds s)))"
  by (induction ds arbitrary: s) (auto simp: scan_item_def distinct_keys_map_put)

lemma scan_tags_keys:
  "fst ` set (tags (fold scan_item ds s))
     = fst ` set (tags s) \<union> (\<Union>item\<in>set ds. set (DataItem.Tags item))"
  by (induction ds arbitrary: s) (auto simp: scan_item_def fold_tags_keys)

lemma scan_tags_distinct:
  "distinct (map fst (tags s)) \<Longrightarrow> distinct (map fst (tags (fold scan_item ds s)))"
  by (induction ds arbitrary: s) (auto simp: scan_item_def fold_tags_distinct)

lemma Metadata_UpdateMetadata:
  "Metadata (UpdateMetadata now dm) =
     (Metadata dm)
       \<lparr>LastModified := now,
        TotalItems := int (length (Dataset dm)),
        VerifiedItems := verified (fold scan_item (Dataset dm)
           \<lparr> verified = 0, labelCounts = [], categories = [], tags = [] \<rparr>),
        Labels := mapKeys (labelCounts (fold scan_item (Dataset dm)
           \<lparr> verified = 0, labelCounts = [], categories = [], tags = [] \<rparr>)),
        Categories := mapKeys (categories (fold scan_item (Dataset dm)
           \<lparr> verified = 0, labelCounts = [], categories = [], tags = [] \<rparr>)),
        DatasetMetadata.Tags := mapKeys (tags (fold scan_item (Dataset dm)
           \<lparr> verified = 0, labelCounts = [], categories = [], tags = [] \<rparr>))\<rparr>"
  by (simp add: UpdateMetadata_def UpdateMetrics_def Let_def)

lemma LabelDistribution_UpdateMetadata:
  "LabelDistribution (Metrics (UpdateMetadata now dm)) =
     labelCounts (fold scan_item (Dataset dm)
       \<lparr> verified = 0, labelCounts = [], categories = [], tags = [] \<rparr>)"
  by (simp add: UpdateMetadata_def UpdateMetrics_def Let_def)

lemma counts_consistent_UpdateMetadata: "counts_consistent (UpdateMetadata now dm)"
  by (simp add: counts_consistent_def Metadata_UpdateMetadata LabelDistribution_UpdateMetadata
      Dataset_UpdateMetadata scan_verified scan_labelCounts_sum)

lemma ImportCSV_success:
  "fst (ImportCSV now dm input) = None \<Longrightarrow>
     \<exists>dm'. snd (ImportCSV now dm input) = UpdateMetadata now dm'"
  by (auto simp: ImportCSV_def split: list.splits csv_line.splits prod.splits option.splits)

lemma UpdateItem_success:
  "fst (UpdateItem now render dm index updates) = None \<Longrightarrow>
     \<exists>dm'. snd (UpdateItem now render dm index updates) = UpdateMetadata now dm'"
  by (auto simp: UpdateItem_def Let_def split: if_splits prod.splits option.splits)

section \<open>Recomputed metadata and metrics\<close>

text \<open>
  C5: once \<open>UpdateMetadata\<close> has run, \<open>VerifiedItems\<close> is the number of items with
  \<open>UserVerified\<close> set, \<open>TotalItems\<close> is the number of items, and the counts of
  \<open>LabelDistribution\<close> sum to \<open>TotalItems\<close>; each label \<open>l\<close>, the empty string
  included, is counted once per item that bears it. A successful \<open>ImportCSV\<close> and an
  \<open>UpdateItem\<close> that returns both end in that recomputation.
\<close>

theorem recomputed_counts_consistent:
  "counts_consistent (UpdateMetadata now dm)
   \<and> map_get (LabelDistribution (Metrics (UpdateMetadata now dm))) l 0
       = int (length (filter (\<lambda>item. Label item = l) (Dataset dm)))
   \<and> (fst (ImportCSV now dm input) = None \<longrightarrow> counts_consistent (snd (ImportCSV now dm input)))
   \<and> (fst (UpdateItem now render dm index updates) = None \<longrightarrow>
        counts_consistent (snd (UpdateItem now render dm index updates)))"
proof (intro conjI impI)
  show "counts_consistent (UpdateMetadata now dm)"
    by (rule counts_consistent_UpdateMetadata)
  show "map_get (LabelDistribution (Metrics (UpdateMetadata now dm))) l 0
       = int (length (filter (\<lambda>item. Label item = l) (Dataset dm)))"
    by (simp add: LabelDistribution_UpdateMetadata scan_labelCounts_get map_get_Nil)
next
  assume "fst (ImportCSV now dm input) = None"
  then obtain dm' where "snd (ImportCSV now dm input) = UpdateMetadata now dm'"
    using ImportCSV_success by blast
  then show "counts_consistent (snd (ImportCSV now dm input))"
    by (simp add: counts_consistent_UpdateMetadata)
next
  assume "fst (UpdateItem now render dm index updates) = None"
  then obtain dm' where "snd (UpdateItem now render dm index updates) = UpdateMetadata now dm'"
    using UpdateItem_success by blast
  then show "counts_consistent (snd (UpdateItem now render dm index updates))"
    by (simp add: counts_consistent_UpdateMetadata)
qed

lemma scenario_A_succeeds: "fst (ImportCSV 1 (NewDataManager 0) scenario_A) = None"
  by code_simp

lemma UpdateItem_no_updates_returns: "fst (UpdateItem 1 (\<lambda>_. []) one_item_store 0 []) = None"
  by code_simp

theorem recomputed_counts_consistent_witness:
  "fst (ImportCSV 1 (NewDataManager 0) scenario_A) = None
   \<and> counts_consistent (snd (ImportCSV 1 (NewDataManager 0) scenario_A))
   \<and> fst (UpdateItem 1 (\<lambda>_. []) one_item_store 0 []) = None
   \<and> counts_consistent (snd (UpdateItem 1 (\<lambda>_. []) one_item_store 0 []))"
  using scenario_A_succeeds UpdateItem_no_updates_returns
    recomputed_counts_consistent [where now = 1 and dm = "NewDataManager 0" and input = scenario_A]
    recomputed_counts_consistent [where now = 1 and dm = one_item_store and render = "\<lambda>_. []"
      and index = 0 and updates = "[]"]
  by blast

text \<open>
  C9: after \<open>UpdateMetadata\<close>, each of \<open>Labels\<close>, \<open>Categories\<close> and \<open>Tags\<close> holds
  exactly the values found in the items, without duplicates, in ascending bytewise
  lexicographic order.
\<close>

theorem UpdateMetadata_derived_sets:
  "sorted (Labels (Metadata (UpdateMetadata now dm)))
   \<and> distinct (Labels (Metadata (UpdateMetadata now dm)))
   \<and> set (Labels (Metadata (UpdateMetadata now dm))) = Label ` set (Dataset dm)
   \<and> sorted (Categories (Metadata (UpdateMetadata now dm)))
   \<and> distinct (Categories (Metadata (UpdateMetadata now dm)))
   \<and> set (Categories (Metadata (UpdateMetadata now dm))) = Category ` set (Dataset dm)
   \<and> sorted (DatasetMetadata.Tags (Metadata (UpdateMetadata now dm)))
   \<and> distinct (DatasetMetadata.Tags (Metadata (UpdateMetadata now dm)))
   \<and> set (DatasetMetadata.Tags (Metadata (UpdateMetadata now dm)))
       = (\<Union>item\<in>set (Dataset dm). set (DataItem.Tags item))"
  by (simp add: Metadata_UpdateMetadata mapKeys_sort scan_labelCounts_keys scan_labelCounts_distinct
      scan_categories_keys scan_categories_distinct scan_tags_keys scan_tags_distinct)

lemma two_item_store_Labels: "Labels (Metadata (UpdateMetadata 1 two_item_store)) = [''neg'', ''pos'']"
  by code_simp

theorem UpdateMetadata_derived_sets_witness:
  "Labels (Metadata (UpdateMetadata 1 two_item_store)) = [''neg'', ''pos'']
   \<and> sorted (Labels (Metadata (UpdateMetadata 1 two_item_store)))
   \<and> distinct (Labels (Metadata (UpdateMetadata 1 two_item_store)))
   \<and> set (Labels (Metadata (UpdateMetadata 1 two_item_store))) = {''pos'', ''neg''}"
proof -
  have "Label ` set (Dataset two_item_store) = {''pos'', ''neg''}"
    by (simp add: two_item_store_def NewDataManager_def new_item_def)
  then show ?thesis
    using two_item_store_Labels UpdateMetadata_derived_sets [of 1 two_item_store] by simp
qed

section \<open>Scenario A and the empty store\<close>

lemma headerMap_scenario_A: "headerMap [''text'', ''label''] = [(''text'', 0), (''label'', 1)]"
  by code_simp

lemma ImportCSV_scenario_A: "Dataset dm = [] \<Longrightarrow> ImportCSV now dm scenario_A =
   (None, UpdateMetadata now (dm\<lparr>Dataset := [(new_item now [])\<lparr>Text := ''a'', Label := ''pos''\<rparr>,
            (new_item now [])\<lparr>ID := 2, Text := ''b'', Label := ''neg''\<rparr>]\<rparr>))"
  by (simp add: ImportCSV_def scenario_A_def headerMap_scenario_A Read_def map_field_def new_item_def)

lemma balanced_score: "calculateDistributionScore [(''pos'', 1), (''neg'', 1)] = Fin 100"
  by (simp add: calculateDistributionScore_def float64_of_int_def fsub_def)

text \<open>
  C7: importing the rows \<open>(a, pos)\<close> and \<open>(b, neg)\<close> under the header
  \<open>text,label\<close> into an empty store gives the label distribution
  \<open>{pos: 1, neg: 1}\<close>, the distribution score 100 and \<open>VerifiedPct = 0\<close>.
\<close>

theorem scenario_A_metrics:
  assumes "Dataset dm = []"
  shows "fst (ImportCSV now dm scenario_A) = None
   \<and> map (\<lambda>item. (Text item, Label item)) (Dataset (snd (ImportCSV now dm scenario_A)))
        = [(''a'', ''pos''), (''b'', ''neg'')]
   \<and> LabelDistribution (Metrics (snd (ImportCSV now dm scenario_A))) = [(''pos'', 1), (''neg'', 1)]
   \<and> calculateDistributionScore (LabelDistribution (Metrics (snd (ImportCSV now dm scenario_A))))
        = Fin 100
   \<and> VerifiedPct (Metrics (snd (ImportCSV now dm scenario_A))) = Fin 0
   \<and> QualityScore (Metrics (snd (ImportCSV now dm scenario_A))) = Fin 50"
proof -
  have ld: "LabelDistribution (Metrics (snd (ImportCSV now dm scenario_A))) = [(''pos'', 1), (''neg'', 1)]"
    by (simp add: ImportCSV_scenario_A [OF assms] UpdateMetadata_def UpdateMetrics_def Let_def scan_item_def
        new_item_def map_get_def)
  have vp: "VerifiedPct (Metrics (snd (ImportCSV now dm scenario_A))) = Fin 0"
    by (simp add: ImportCSV_scenario_A [OF assms] UpdateMetadata_def UpdateMetrics_def Let_def scan_item_def
        new_item_def float64_of_int_def)
  have qs: "QualityScore (Metrics (snd (ImportCSV now dm scenario_A))) = Fin 50"
    by (simp add: ImportCSV_scenario_A [OF assms] UpdateMetadata_def UpdateMetrics_def Let_def scan_item_def
        new_item_def float64_of_int_def map_get_def balanced_score)
  have it: "map (\<lambda>item. (Text item, Label item)) (Dataset (snd (ImportCSV now dm scenario_A)))
        = [(''a'', ''pos''), (''b'', ''neg'')]"
    by (simp add: ImportCSV_scenario_A [OF assms] Dataset_UpdateMetadata)
  show ?thesis
    using ld vp qs it by (simp add: ImportCSV_scenario_A [OF assms] balanced_score)
qed

theorem scenario_A_metrics_witness:
  "Dataset (NewDataManager 0) = []
   \<and> fst (ImportCSV 1 (NewDataManager 0) scenario_A) = None
   \<and> LabelDistribution (Metrics (snd (ImportCSV 1 (NewDataManager 0) scenario_A)))
        = [(''pos'', 1), (''neg'', 1)]
   \<and> calculateDistributionScore
        (LabelDistribution (Metrics (snd (ImportCSV 1 (NewDataManager 0) scenario_A)))) = Fin 100
   \<and> VerifiedPct (Metrics (snd (ImportCSV 1 (NewDataManager 0) scenario_A))) = Fin 0"
proof -
  have e: "Dataset (NewDataManager 0) = []"
    by (simp add: NewDataManager_def)
  show ?thesis
    using e scenario_A_metrics [OF e, of 1] by blast
qed

text \<open>
  C1: on an empty store \<open>UpdateMetrics\<close> divides zero by zero. \<open>VerifiedPct\<close> is
  \<open>NaN\<close>, not 0; nothing short-circuits, so \<open>QualityScore\<close> is \<open>NaN\<close> as well, and
  the bias map is not empty: it holds \<open>distribution_bias\<close>, again \<open>NaN\<close>. Importing a
  file that has a header and no rows reaches this state.
\<close>

theorem empty_store_metrics:
  assumes "Dataset dm = []"
  shows "VerifiedPct (Metrics (UpdateMetadata now dm)) = NaN
   \<and> QualityScore (Metrics (UpdateMetadata now dm)) = NaN
   \<and> BiasMetrics (Metrics (UpdateMetadata now dm)) = [(''distribution_bias'', NaN)]"
  using assms
  by (simp add: UpdateMetadata_def UpdateMetrics_def Let_def float64_of_int_def
     calculateDistributionScore_def calculateBiasMetrics_def)

theorem empty_store_metrics_witness:
  "Dataset (NewDataManager 0) = []
   \<and> VerifiedPct (Metrics (UpdateMetadata 1 (NewDataManager 0))) = NaN
   \<and> QualityScore (Metrics (UpdateMetadata 1 (NewDataManager 0))) = NaN
   \<and> BiasMetrics (Metrics (UpdateMetadata 1 (NewDataManager 0))) = [(''distribution_bias'', NaN)]
   \<and> snd (ImportCSV 1 (NewDataManager 0) [Record [''text'', ''label'']])
       = UpdateMetadata 1 (NewDataManager 0)"
proof -
  have e: "Dataset (NewDataManager 0) = []"
    by (simp add: NewDataManager_def)
  have "snd (ImportCSV 1 (NewDataManager 0) [Record [''text'', ''label'']])
       = UpdateMetadata 1 (NewDataManager 0)"
    by (simp add: ImportCSV_def NewDataManager_def)
  then show ?thesis
    using e empty_store_metrics [OF e, of 1] by blast
qed

section \<open>Importing rows\<close>

text \<open>
  Every index of the header map is a position of the header, and a record that \<open>Read\<close>
  accepts has as many fields as the header: \<open>record[idx]\<close> is always in range.
\<close>

lemma values_map_put: "snd ` set (map_put m k v) \<subseteq> insert v (snd ` set m)"
proof (induction m)
  case Nil
  then show ?case by simp
next
  case (Cons p m)
  obtain k' v' where p: "p = (k', v')" by (cases p)
  show ?case
  proof (cases "k' = k")
    case True
    then show ?thesis by (auto simp: p)
  next
    case False
    then show ?thesis using Cons by (fastforce simp: p)
  qed
qed

lemma headerMap_fold_values:
  "snd ` set (fold (\<lambda>(i, header) hm. map_put hm (f header) i) xs m)
     \<subseteq> snd ` set m \<union> fst ` set xs"
proof (induction xs arbitrary: m)
  case Nil
  then show ?case by simp
next
  case (Cons x xs)
  obtain i h where x: "x = (i, h)" by (cases x)
  show ?case
    using Cons [of "map_put m (f h) i"] values_map_put [of m "f h" i]
    by (auto simp: x)
qed

lemma headerMap_index_bound:
  assumes "(header, idx) \<in> set (headerMap headers)"
  shows "idx < length headers"
proof -
  have "idx \<in> snd ` set (headerMap headers)"
    using assms by force
  then have "idx \<in> fst ` set (enumerate 0 headers)"
    using headerMap_fold_values [of "\<lambda>h. ToLower (TrimSpace h)" "enumerate 0 headers" "[]"]
    by (auto simp: headerMap_def)
  then show ?thesis
    by (auto simp: in_set_enumerate_eq)
qed

lemma import_rows_good:
  "\<forall>l\<in>set good. Read n l \<noteq> None \<Longrightarrow>
     import_rows now hm n (good @ rest) ds
       = import_rows now hm n rest (snd (import_rows now hm n good ds))
     \<and> fst (import_rows now hm n good ds) = None
     \<and> length (snd (import_rows now hm n good ds)) = length ds + length good
     \<and> take (length ds) (snd (import_rows now hm n good ds)) = ds"
proof (induction good arbitrary: ds)
  case Nil
  then show ?case by simp
next
  case (Cons l good)
  then obtain row where row: "Read n l = Some row" by auto
  have rest: "\<forall>l\<in>set good. Read n l \<noteq> None" using Cons.prems by simp
  let ?ds = "ds @ [fold (map_field row) hm (new_item now ds)]"
  have "take (length ds) (snd (import_rows now hm n good ?ds))
      = take (length ds) (take (length ?ds) (snd (import_rows now hm n good ?ds)))"
    by (simp add: min_def)
  also have "\<dots> = take (length ds) ?ds"
    using Cons.IH [OF rest, of ?ds] by simp
  finally have tk: "take (length ds) (snd (import_rows now hm n good ?ds)) = ds"
    by simp
  show ?case
    using Cons.IH [OF rest, of ?ds] tk by (simp add: row)
qed

text \<open>
  C10: when a data row cannot be read (the parser refuses it, or its number of fields
  differs from the header's), \<open>ImportCSV\<close> returns the error at once. The items of the
  rows before it stay appended: the dataset is the one a successful import of those
  rows alone leaves, the old items first. \<open>UpdateMetadata\<close> is not reached, so
  \<open>Metadata\<close> and \<open>Metrics\<close> are what they were before the call, and only a later
  recomputation counts the new items.
\<close>

theorem ImportCSV_row_error_keeps_rows:
  assumes "\<forall>l\<in>set good. Read (length headers) l \<noteq> None"
    and "Read (length headers) bad = None"
  shows "fst (ImportCSV now dm (Record headers # good @ bad # rest)) = Some RowError
    \<and> fst (ImportCSV now dm (Record headers # good)) = None
    \<and> Dataset (snd (ImportCSV now dm (Record headers # good @ bad # rest)))
        = Dataset (snd (ImportCSV now dm (Record headers # good)))
    \<and> length (Dataset (snd (ImportCSV now dm (Record headers # good @ bad # rest))))
        = length (Dataset dm) + length good
    \<and> take (length (Dataset dm)) (Dataset (snd (ImportCSV now dm (Record headers # good @ bad # rest))))
        = Dataset dm
    \<and> Metadata (snd (ImportCSV now dm (Record headers # good @ bad # rest))) = Metadata dm
    \<and> Metrics (snd (ImportCSV now dm (Record headers # good @ bad # rest))) = Metrics dm
    \<and> TotalItems (Metadata (UpdateMetadata now'
          (snd (ImportCSV now dm (Record headers # good @ bad # rest)))))
        = int (length (Dataset dm) + length good)"
proof -
  let ?hm = "headerMap headers" and ?n = "length headers"
  let ?g = "import_rows now ?hm ?n good (Dataset dm)"
  note g = import_rows_good [OF assms(1), of now ?hm _ "Dataset dm"]
  have bad: "import_rows now ?hm ?n (good @ bad # rest) (Dataset dm) = (Some RowError, snd ?g)"
    using g [of "bad # rest"] assms(2) by simp
  obtain new where ok: "?g = (None, new)"
    using g [of "[]"] by (cases ?g) auto
  have e: "ImportCSV now dm (Record headers # good @ bad # rest)
      = (Some RowError, dm\<lparr>Dataset := snd ?g\<rparr>)"
    by (simp add: ImportCSV_def bad)
  have s: "ImportCSV now dm (Record headers # good)
      = (None, UpdateMetadata now (dm\<lparr>Dataset := snd ?g\<rparr>))"
    by (simp add: ImportCSV_def ok)
  show ?thesis
    using g [of "[]"]
    by (simp add: e s Dataset_UpdateMetadata Metadata_UpdateMetadata)
qed



theorem ImportCSV_row_error_keeps_rows_witness:
  "Read 2 (Record [''a'', ''pos'']) = Some [''a'', ''pos'']
   \<and> Read 2 (Record [''b'']) = None
   \<and> fst (ImportCSV 1 (NewDataManager 0) short_row_input) = Some RowError
   \<and> map Text (Dataset (snd (ImportCSV 1 (NewDataManager 0) short_row_input))) = [''a'']
   \<and> Metadata (snd (ImportCSV 1 (NewDataManager 0) short_row_input)) = Metadata (NewDataManager 0)
   \<and> TotalItems (Metadata (snd (ImportCSV 1 (NewDataManager 0) short_row_input))) = 0
   \<and> Metrics (snd (ImportCSV 1 (NewDataManager 0) short_row_input)) = Metrics (NewDataManager 0)
   \<and> TotalItems (Metadata (UpdateMetadata 2 (snd (ImportCSV 1 (NewDataManager 0) short_row_input)))) = 1"
proof -
  have g: "\<forall>l\<in>set [Record [''a'', ''pos'']]. Read (length [''text'', ''label'']) l \<noteq> None"
    by (simp add: Read_def)
  have b: "Read (length [''text'', ''label'']) (Record [''b'']) = None"
    by (simp add: Read_def)
  have t: "map Text (Dataset (snd (ImportCSV 1 (NewDataManager 0) short_row_input))) = [''a'']"
    by code_simp
  have z: "TotalItems (Metadata (NewDataManager 0)) = 0" "Dataset (NewDataManager 0) = []"
    by (simp_all add: NewDataManager_def)
  show ?thesis
    using ImportCSV_row_error_keeps_rows [OF g b, of 1 "NewDataManager 0" "[Record [''c'', ''neg'']]" 2]
      t z
    by (simp add: short_row_input_def Read_def)
qed

section \<open>The distribution score\<close>







section \<open>Bias metrics and alerts\<close>




























end
